theory Spec2Isabelle
  imports Main "HOL-Library.Sublist"
begin

section \<open>Strings\<close>

text \<open>
  A JavaScript string is a sequence of UTF-16 code units; protocol text (sura names, verse
  text, segments) is modelled as the list of its code units. Identifiers, media types,
  file names and the enumerated string constants of the source (\<open>'pending'\<close>,
  \<open>'deletion'\<close>, \<open>'spoken'\<close>, ...) are ASCII and are modelled as HOL strings.
\<close>

type_synonym jsstring = "nat list"

text \<open>
  The code units matched by \<open>\s\<close> in a JavaScript regular expression: the WhiteSpace
  and LineTerminator productions of ECMAScript (TAB, LF, VT, FF, CR, SP, NBSP, U+1680,
  U+2000 to U+200A, LS, PS, U+202F, U+205F, U+3000 and U+FEFF).
\<close>

definition isWhiteSpace :: "nat \<Rightarrow> bool" where
  "isWhiteSpace c =
     (c = 9 \<or> c = 10 \<or> c = 11 \<or> c = 12 \<or> c = 13 \<or> c = 32 \<or> c = 160 \<or> c = 5760
      \<or> (8192 \<le> c \<and> c \<le> 8202) \<or> c = 8232 \<or> c = 8233 \<or> c = 8239 \<or> c = 8287
      \<or> c = 12288 \<or> c = 65279)"

text \<open>
  \<open>S.split(/\s+/)\<close>: the string is cut at every maximal run of white space. The
  first argument of \<open>split_from\<close> is the piece collected since the last separator;
  a separator at the very start or the very end of the string leaves an empty piece there,
  and the empty string splits into the one empty piece, as in JavaScript.
\<close>

function split_from :: "jsstring \<Rightarrow> jsstring \<Rightarrow> jsstring list" where
  "split_from cur [] = [cur]"
| "split_from cur (c # cs) =
     (if isWhiteSpace c then cur # split_from [] (dropWhile isWhiteSpace cs)
      else split_from (cur @ [c]) cs)"
  by pat_completeness auto
termination
  by (relation "measure (\<lambda>(cur, s). length s)")
     (auto simp: le_imp_less_Suc length_dropWhile_le)

definition split_ws :: "jsstring \<Rightarrow> jsstring list" where
  "split_ws S = split_from [] S"

text \<open>
  The word tokens as the specification describes them: the maximal runs of characters
  that are not white space, so that no token is empty.
\<close>

function tokens :: "jsstring \<Rightarrow> jsstring list" where
  "tokens [] = []"
| "tokens (c # cs) =
     (if isWhiteSpace c then tokens cs
      else (c # takeWhile (\<lambda>x. \<not> isWhiteSpace x) cs)
             # tokens (dropWhile (\<lambda>x. \<not> isWhiteSpace x) cs))"
  by pat_completeness auto
termination
  by (relation "measure length") (auto simp: le_imp_less_Suc length_dropWhile_le)

text \<open>\<open>s.startsWith(p)\<close>\<close>

definition startsWith :: "string \<Rightarrow> string \<Rightarrow> bool" where
  "startsWith s p = (take (length p) s = p)"

text \<open>
  \<open>window.atob\<close>, the browser's base64 decoder, as the HTML standard defines it: ASCII
  white space is removed; when the length is then a multiple of 4, one or two \<open>=\<close> at the
  end are removed; a length that leaves the remainder 1 and a character outside the base64
  alphabet make the call throw (\<open>None\<close>); otherwise every four characters give three
  bytes, and two or three characters left at the end give one or two. The result is the
  list of the bytes, which is what \<open>Uint8Array.from(atob(s), c => c.charCodeAt(0))\<close> holds.
\<close>

definition isAsciiWhitespace :: "nat \<Rightarrow> bool" where
  "isAsciiWhitespace c = (c = 9 \<or> c = 10 \<or> c = 12 \<or> c = 13 \<or> c = 32)"

definition b64_value :: "nat \<Rightarrow> nat option" where
  "b64_value c =
     (if 65 \<le> c \<and> c \<le> 90 then Some (c - 65)
      else if 97 \<le> c \<and> c \<le> 122 then Some (c - 71)
      else if 48 \<le> c \<and> c \<le> 57 then Some (c + 4)
      else if c = 43 then Some 62
      else if c = 47 then Some 63
      else None)"

fun b64_groups :: "nat list \<Rightarrow> nat list" where
  "b64_groups (a # b # c # d # rest) =
     (let n = ((a * 64 + b) * 64 + c) * 64 + d
      in [n div 65536, (n div 256) mod 256, n mod 256] @ b64_groups rest)"
| "b64_groups [a, b, c] =
     (let n = (a * 64 + b) * 64 + c in [n div 1024, (n div 4) mod 256])"
| "b64_groups [a, b] = [(a * 64 + b) div 16]"
| "b64_groups [a] = []"
| "b64_groups [] = []"

definition strip_padding :: "jsstring \<Rightarrow> jsstring" where
  "strip_padding d =
     (if length d mod 4 = 0 then
        (if take 2 (rev d) = [61, 61] then take (length d - 2) d
         else if take 1 (rev d) = [61] then take (length d - 1) d
         else d)
      else d)"

definition window_atob :: "jsstring \<Rightarrow> nat list option" where
  "window_atob data =
     (let d = strip_padding (filter (\<lambda>c. \<not> isAsciiWhitespace c) data)
      in if length d mod 4 = 1 then None
         else (case those (map b64_value d) of
                 None \<Rightarrow> None
               | Some sextets \<Rightarrow> Some (b64_groups sextets)))"

section \<open>Data model\<close>

text \<open>
  A mistake record as \<open>onmessage\<close> builds it. The sync payload is the record without
  its \<open>synced\<close> field, so \<open>synced\<close> is the extension of the record of the remaining
  fields.
\<close>

record mistake_rest =
  id_m :: string
  sura :: jsstring
  aya :: jsstring
  transcription_segment :: jsstring
  reference_segment :: jsstring
  mistake_type :: jsstring
  timestamp :: int
  verified :: string

record mistake = mistake_rest +
  synced :: bool

text \<open>One entry of the \<open>diff\<close> array of a \<open>diff_update\<close> message.\<close>

record diff_event =
  type_d :: string
  index :: int
  word :: jsstring

text \<open>The fields of a \<open>mistake_event\<close> message; the correction audio is optional.\<close>

record mistake_event =
  mistake_type_ev :: jsstring
  reference_word :: jsstring
  transcribed_word :: jsstring
  transcribed_segment :: jsstring
  reference_segment_ev :: jsstring
  correction_audio_base64 :: "jsstring option"

text \<open>
  A parsed message of the session socket, by its \<open>type\<close> field; a message of any other
  type is \<open>Other_message\<close>.
\<close>

datatype message =
    Verse_identified jsstring jsstring int
  | Diff_update "diff_event list"
  | Mistake_event mistake_event
  | Other_message

text \<open>A file chosen in the training tab, and a record of the upload log.\<close>

record audio_file =
  name_f :: string
  type_f :: string
  size_f :: nat

record upload_record =
  id_u :: string
  fileName :: string
  type_u :: string
  timestamp_u :: int
  fileSize :: nat
  fileType :: string

text \<open>
  The value under the \<open>qra_training_uploads\<close> key of the local store: absent, a stored
  array of records, or something that \<open>JSON.parse\<close> rejects or that is no array.
\<close>

datatype stored_log = Absent | Corrupt | Log "upload_record list"

text \<open>
  The outcome of a \<open>fetch\<close>: the promise rejects (network error), or a response arrives
  with its status code and a body that parses as JSON or does not.
\<close>

datatype http_response = Network_error | Response nat bool

definition ok :: "nat \<Rightarrow> bool" where
  "ok st = (200 \<le> st \<and> st \<le> 299)"

text \<open>The status line: one constructor for each message text of the source.\<close>

datatype status =
    Ready
  | Connected
  | Reciting jsstring int
  | Mistake_detected jsstring jsstring jsstring
  | Listening
  | Mic_denied
  | Stopped_listening
  | Marked_as string
  | File_selected string
  | Invalid_file
  | No_file_selected
  | Uploading string
  | Upload_ok string
  | Upload_failed
  | Synced_ok
  | Playback_error

text \<open>The \<open>readyState\<close> of a socket and the \<open>state\<close> of a media recorder.\<close>

datatype ready_state = CONNECTING | OPEN | CLOSING | CLOSED

datatype recorder_state = Inactive | Recording

datatype track_state = Live | Ended

text \<open>
  The state of the component: its \<open>useState\<close> values, its \<open>useRef\<close> cells, and the
  browser resources they refer to. Handles (timer ids, animation frame ids, audio source
  nodes) are positive numbers drawn from \<open>next_handle\<close>.
  \<^item> \<open>intervals\<close>: the timers that are running;
  \<^item> \<open>frames\<close>: the animation frame callbacks that are pending;
  \<^item> \<open>playing\<close>: the audio source nodes that were started and have neither been
    stopped nor ended;
  \<^item> \<open>audioStream\<close>: the microphone stream, as the states of its tracks.
\<close>

record app =
  isListening :: bool
  currentSura :: jsstring
  currentAya :: jsstring
  feedbackMode :: string
  mistakeQueue :: "mistake list"
  currentVerseWords :: "jsstring list"
  highlightedWords :: "int list"
  statusMessage :: status
  isSpokenCorrectionPlaying :: bool
  recordedAudioFile :: "audio_file option"
  ws :: "ready_state option"
  audioContext :: bool
  mediaRecorder :: "recorder_state option"
  audioChunks :: "nat list"
  audioStream :: "track_state list option"
  spokenCorrectionSource :: "nat option"
  animationFrameId :: "nat option"
  silenceTimeoutId :: "nat option"
  trainingUploads :: stored_log
  intervals :: "nat list"
  frames :: "nat list"
  playing :: "nat list"
  next_handle :: nat

text \<open>The component after mounting: the initial \<open>useState\<close> values, an audio context.\<close>

definition init_app :: app where
  "init_app = \<lparr>isListening = False, currentSura = [], currentAya = [],
     feedbackMode = ''highlight'', mistakeQueue = [], currentVerseWords = [],
     highlightedWords = [], statusMessage = Ready, isSpokenCorrectionPlaying = False,
     recordedAudioFile = None, ws = None, audioContext = True, mediaRecorder = None,
     audioChunks = [], audioStream = None, spokenCorrectionSource = None,
     animationFrameId = None, silenceTimeoutId = None, trainingUploads = Absent,
     intervals = [], frames = [], playing = [], next_handle = 0\<rparr>"

section \<open>The session protocol: \<open>ws.current.onmessage\<close>\<close>

text \<open>
  What the handler takes from its environment when it builds a record:
  \<open>crypto.randomUUID()\<close> and \<open>Date.now()\<close>.
\<close>

record env =
  randomUUID :: string
  now :: int

text \<open>The feedback a \<open>mistake_event\<close> triggers: a call of \<open>playBeep\<close> or of
  \<open>playSpokenCorrection\<close> with the decoded bytes.\<close>

datatype action = PlayBeep | PlaySpokenCorrection "nat list"

text \<open>
  The handler of one parsed message. \<open>atob\<close> is the browser's base64 decoder, \<open>None\<close>
  where it throws; the handler then ends after the queue update. The verse labels of a new
  record are the \<open>currentSura\<close> and \<open>currentAya\<close> of the state, and the feedback mode
  is the one of the state.
\<close>

definition onmessage ::
  "env \<Rightarrow> (jsstring \<Rightarrow> nat list option) \<Rightarrow> message \<Rightarrow> app \<Rightarrow> app \<times> action list" where
  "onmessage e atob msg s =
     (case msg of
        Verse_identified sura_name ayah_text ayah_number \<Rightarrow>
          (s\<lparr>currentSura := sura_name,
             currentAya := ayah_text,
             currentVerseWords := filter (\<lambda>word. length word > 0) (split_ws ayah_text),
             statusMessage := Reciting sura_name ayah_number,
             highlightedWords := []\<rparr>, [])
      | Diff_update diff \<Rightarrow>
          (s\<lparr>highlightedWords :=
               map index
                 (filter (\<lambda>d. type_d d = ''deletion'' \<or> type_d d = ''replacement_ref'') diff)\<rparr>,
           [])
      | Mistake_event m \<Rightarrow>
          (let newMistake =
                 \<lparr>id_m = randomUUID e,
                  sura = currentSura s,
                  aya = currentAya s,
                  transcription_segment = transcribed_segment m,
                  reference_segment = reference_segment_ev m,
                  mistake_type = mistake_type_ev m,
                  timestamp = now e,
                  verified = ''pending'',
                  synced = False\<rparr>;
               s' = s\<lparr>statusMessage :=
                        Mistake_detected (mistake_type_ev m) (reference_word m) (transcribed_word m),
                      mistakeQueue := newMistake # mistakeQueue s\<rparr>
           in if feedbackMode s = ''highlight'' then (s', [])
              else if feedbackMode s = ''beep'' then (s', [PlayBeep])
              else if feedbackMode s = ''spoken'' then
                (case correction_audio_base64 m of
                   None \<Rightarrow> (s', [])
                 | Some b \<Rightarrow>
                     if b = [] then (s', [])
                     else (case atob b of
                             None \<Rightarrow> (s', [])
                           | Some audioBytes \<Rightarrow> (s', [PlaySpokenCorrection audioBytes])))
              else (s', []))
      | Other_message \<Rightarrow> (s, []))"

text \<open>
  The handler applied to the messages of a list in the order of their delivery, each on
  the state the one before has left. This is the handler alone: the life of the socket is
  not part of it. In the component the socket, and with it the handler, is set up again
  by the effect whenever \<open>currentSura\<close>, \<open>currentAya\<close> or \<open>feedbackMode\<close> changes, which
  a \<open>verse_identified\<close> message brings about and a \<open>diff_update\<close> message does not.
\<close>

fun run_messages ::
  "(jsstring \<Rightarrow> nat list option) \<Rightarrow> (env \<times> message) list \<Rightarrow> app \<Rightarrow> app" where
  "run_messages atob [] s = s"
| "run_messages atob ((e, m) # ms) s = run_messages atob ms (fst (onmessage e atob m s))"

section \<open>The mistake queue: verification and sync\<close>

definition handleMistakeVerification :: "string \<Rightarrow> string \<Rightarrow> app \<Rightarrow> app" where
  "handleMistakeVerification i st s =
     s\<lparr>mistakeQueue :=
         map (\<lambda>m. if id_m m = i then m\<lparr>verified := st, synced := False\<rparr> else m)
           (mistakeQueue s),
       statusMessage := Marked_as st\<rparr>"

text \<open>
  \<open>syncMistakes\<close> is an async function with one suspension point, the \<open>fetch\<close>. The part
  before it selects the unsynced records and either returns or issues the request; the
  part after it runs on the queue as it is when the response arrives, with the list
  \<open>unsynced\<close> that was selected before the request.
\<close>

definition unsynced_of :: "mistake list \<Rightarrow> mistake list" where
  "unsynced_of q = filter (\<lambda>m. \<not> synced m) q"

datatype sync_request = No_request | Fetch "mistake_rest list"

definition syncMistakes_request :: "app \<Rightarrow> sync_request" where
  "syncMistakes_request s =
     (let unsynced = unsynced_of (mistakeQueue s)
      in if length unsynced = 0 then No_request
         else Fetch (map mistake_rest.truncate unsynced))"

definition syncMistakes_response :: "mistake list \<Rightarrow> http_response \<Rightarrow> app \<Rightarrow> app" where
  "syncMistakes_response unsynced res s =
     (case res of
        Network_error \<Rightarrow> s
      | Response st body \<Rightarrow>
          if \<not> ok st then s
          else s\<lparr>mistakeQueue :=
                   map (\<lambda>m. if id_m m \<in> set (map id_m unsynced) then m\<lparr>synced := True\<rparr> else m)
                     (mistakeQueue s),
                 statusMessage := Synced_ok\<rparr>)"

text \<open>A sync attempt during which nothing else happens.\<close>

definition syncMistakes :: "http_response \<Rightarrow> app \<Rightarrow> app" where
  "syncMistakes res s =
     (case syncMistakes_request s of
        No_request \<Rightarrow> s
      | Fetch payload \<Rightarrow> syncMistakes_response (unsynced_of (mistakeQueue s)) res s)"

section \<open>Training upload\<close>

text \<open>\<open>files\<close> is the file list of the input element; \<open>files[0]\<close> of an empty list is
  undefined.\<close>

definition handleAudioFileUpload :: "audio_file list \<Rightarrow> app \<Rightarrow> app" where
  "handleAudioFileUpload files s =
     (case files of
        [] \<Rightarrow> s\<lparr>recordedAudioFile := None, statusMessage := Invalid_file\<rparr>
      | f # rest \<Rightarrow>
          if startsWith (type_f f) ''audio/''
          then s\<lparr>recordedAudioFile := Some f, statusMessage := File_selected (name_f f)\<rparr>
          else s\<lparr>recordedAudioFile := None, statusMessage := Invalid_file\<rparr>)"

text \<open>
  The upload of the selected file, with the response of the endpoint. Everything after
  the \<open>fetch\<close> is inside one \<open>try\<close>: a rejected request, a status that is not ok, a body
  that is not JSON and a stored log that cannot be read all end in the \<open>catch\<close> branch.
\<close>

definition uploadInitialTrainingAudio :: "env \<Rightarrow> http_response \<Rightarrow> app \<Rightarrow> app" where
  "uploadInitialTrainingAudio e res s =
     (case recordedAudioFile s of
        None \<Rightarrow> s\<lparr>statusMessage := No_file_selected\<rparr>
      | Some f \<Rightarrow>
          (case res of
             Network_error \<Rightarrow> s\<lparr>statusMessage := Upload_failed\<rparr>
           | Response st body \<Rightarrow>
               if \<not> ok st then s\<lparr>statusMessage := Upload_failed\<rparr>
               else if \<not> body then s\<lparr>statusMessage := Upload_failed\<rparr>
               else
                 (let record =
                        \<lparr>id_u = randomUUID e,
                         fileName = name_f f,
                         type_u = ''initial_recitation_upload'',
                         timestamp_u = now e,
                         fileSize = size_f f,
                         fileType = type_f f\<rparr>
                  in case trainingUploads s of
                       Corrupt \<Rightarrow> s\<lparr>statusMessage := Upload_failed\<rparr>
                     | Absent \<Rightarrow>
                         s\<lparr>statusMessage := Upload_ok (name_f f),
                           trainingUploads := Log [record],
                           recordedAudioFile := None\<rparr>
                     | Log existing \<Rightarrow>
                         s\<lparr>statusMessage := Upload_ok (name_f f),
                           trainingUploads := Log (record # existing),
                           recordedAudioFile := None\<rparr>)))"

section \<open>Correction playback\<close>

text \<open>\<open>source.stop(); source.disconnect()\<close>: the node no longer plays.\<close>

definition stop_source :: "nat \<Rightarrow> app \<Rightarrow> app" where
  "stop_source n s = s\<lparr>playing := removeAll n (playing s)\<rparr>"

text \<open>
  \<open>playSpokenCorrection\<close> is an async function with one suspension point,
  \<open>await decodeAudioData\<close>. \<open>playSpokenCorrection_call\<close> is the part that runs when the
  function is called, up to the \<open>await\<close>; it also tells whether a decode was started.
  \<open>playSpokenCorrection_resume\<close> is the part that runs when the decode has settled, with
  its outcome (\<open>False\<close>: the audio could not be decoded). \<open>source_onended\<close> is the
  \<open>onended\<close> callback of a source node.
\<close>

definition playSpokenCorrection_call :: "nat list option \<Rightarrow> app \<Rightarrow> app \<times> bool" where
  "playSpokenCorrection_call audioData s =
     (if audioContext s \<and> audioData \<noteq> None then
        (case spokenCorrectionSource s of
           None \<Rightarrow> (s, True)
         | Some previous \<Rightarrow>
             ((stop_source previous s)
                \<lparr>spokenCorrectionSource := None, isSpokenCorrectionPlaying := False\<rparr>, True))
      else (s, False))"

definition playSpokenCorrection_resume :: "bool \<Rightarrow> app \<Rightarrow> app" where
  "playSpokenCorrection_resume decoded s =
     (if decoded then
        (let source = Suc (next_handle s)
         in s\<lparr>next_handle := source,
              playing := source # playing s,
              spokenCorrectionSource := Some source,
              isSpokenCorrectionPlaying := True\<rparr>)
      else s\<lparr>statusMessage := Playback_error, isSpokenCorrectionPlaying := False\<rparr>)"

definition source_onended :: "nat \<Rightarrow> app \<Rightarrow> app" where
  "source_onended n s =
     s\<lparr>playing := removeAll n (playing s),
       isSpokenCorrectionPlaying := False,
       spokenCorrectionSource := None\<rparr>"

section \<open>Audio capture: \<open>startListening\<close> and \<open>stopListening\<close>\<close>

text \<open>
  The outcome of asking for the microphone: access is refused, access is granted but the
  recorder cannot be built for the stream, or access is granted and the recorder starts.
\<close>

datatype media_result = Denied | Unsupported | Granted

text \<open>
  \<open>startListening\<close> returns the new state and what the function returns to its caller:
  on success a closure that would clear the interval timer it has just started, given
  here by the timer's id. The button that calls \<open>startListening\<close> ignores that value.
\<close>

definition startListening :: "media_result \<Rightarrow> app \<Rightarrow> app \<times> nat option" where
  "startListening media s =
     (if isListening s then (s, None)
      else
        (case media of
           Denied \<Rightarrow> (s\<lparr>statusMessage := Mic_denied, isListening := False\<rparr>, None)
         | Unsupported \<Rightarrow>
             (s\<lparr>audioStream := Some [Live], statusMessage := Mic_denied,
                isListening := False\<rparr>, None)
         | Granted \<Rightarrow>
             if \<not> audioContext s then
               (s\<lparr>audioStream := Some [Live], mediaRecorder := Some Inactive,
                  audioChunks := [], statusMessage := Mic_denied, isListening := False\<rparr>, None)
             else
               (let frame = Suc (next_handle s);
                    intervalId = Suc frame
                in (s\<lparr>audioStream := Some [Live],
                      mediaRecorder := Some Recording,
                      audioChunks := [],
                      animationFrameId := Some frame,
                      frames := frame # frames s,
                      statusMessage := Listening,
                      isListening := True,
                      intervals := intervalId # intervals s,
                      next_handle := intervalId\<rparr>, Some intervalId))))"

text \<open>\<open>socket.close()\<close>\<close>

definition close_ws :: "ready_state \<Rightarrow> ready_state" where
  "close_ws r = (case r of CLOSED \<Rightarrow> CLOSED | CLOSING \<Rightarrow> CLOSING | OPEN \<Rightarrow> CLOSING
                 | CONNECTING \<Rightarrow> CLOSING)"

text \<open>
  \<open>stopListening\<close>, in the order of the source: stop the recorder if it is recording, stop
  the tracks of the stream, close the socket, cancel the animation frame whose id is in
  \<open>animationFrameId\<close>, clear the timer whose id is in \<open>silenceTimeoutId\<close>, reset the
  displayed state, and stop the correction that is playing. A handle is tested as a
  condition, so the number 0 counts as absent. \<open>clearTimeout\<close> works on the browser's one
  table of timers; no function of the component ever assigns \<open>silenceTimeoutId\<close>, so in
  every state the component reaches it is null.
\<close>

definition stopListening :: "app \<Rightarrow> app" where
  "stopListening s =
     (if \<not> isListening s then s
      else
        (let s1 = (if mediaRecorder s = Some Recording
                   then s\<lparr>mediaRecorder := Some Inactive\<rparr> else s);
             s2 = s1\<lparr>audioStream := map_option (map (\<lambda>track. Ended)) (audioStream s1)\<rparr>;
             s3 = s2\<lparr>ws := map_option close_ws (ws s2)\<rparr>;
             s4 = (case animationFrameId s3 of
                     None \<Rightarrow> s3
                   | Some n \<Rightarrow> if n \<noteq> 0 then s3\<lparr>frames := removeAll n (frames s3)\<rparr> else s3);
             s4' = (case silenceTimeoutId s4 of
                      None \<Rightarrow> s4
                    | Some n \<Rightarrow>
                        if n \<noteq> 0 then s4\<lparr>intervals := removeAll n (intervals s4)\<rparr> else s4);
             s5 = s4'\<lparr>isListening := False,
                     statusMessage := Stopped_listening,
                     currentSura := [],
                     currentAya := [],
                     currentVerseWords := [],
                     highlightedWords := [],
                     isSpokenCorrectionPlaying := False\<rparr>
         in case spokenCorrectionSource s5 of
              None \<Rightarrow> s5
            | Some source \<Rightarrow> (stop_source source s5)\<lparr>spokenCorrectionSource := None\<rparr>))"

text \<open>
  The effect that owns the socket, run after a render in which \<open>isListening\<close> has
  changed: it closes and drops the socket when the component is not listening, and opens
  one when it is. \<open>ws_onopen\<close> is the socket's \<open>onopen\<close> callback.
\<close>

definition ws_effect :: "app \<Rightarrow> app" where
  "ws_effect s =
     (if \<not> isListening s then (case ws s of None \<Rightarrow> s | Some r \<Rightarrow> s\<lparr>ws := None\<rparr>)
      else s\<lparr>ws := Some CONNECTING\<rparr>)"

definition ws_onopen :: "app \<Rightarrow> app" where
  "ws_onopen s = s\<lparr>ws := Some OPEN, statusMessage := Connected\<rparr>"

section \<open>Example values\<close>

text \<open>Concrete records, states and environments at which the theorems below are
  instantiated.\<close>

definition mk_mistake :: "string \<Rightarrow> int \<Rightarrow> string \<Rightarrow> bool \<Rightarrow> mistake" where
  "mk_mistake i t v b =
     \<lparr>id_m = i, sura = [], aya = [], transcription_segment = [], reference_segment = [],
      mistake_type = [], timestamp = t, verified = v, synced = b\<rparr>"

definition env_c :: env where
  "env_c = \<lparr>randomUUID = ''c'', now = 3\<rparr>"

definition queue_ab :: app where
  "queue_ab = init_app\<lparr>mistakeQueue :=
     [mk_mistake ''a'' 2 ''pending'' False, mk_mistake ''b'' 1 ''pending'' True]\<rparr>"

definition bismillah :: jsstring where
  "bismillah = [1576, 1587, 1605, 32, 1575, 1604, 1604, 1607]"

definition diff_example :: "diff_event list" where
  "diff_example =
     [\<lparr>type_d = ''equal'', index = 0, word = [1576, 1587, 1605]\<rparr>,
      \<lparr>type_d = ''replacement_ref'', index = 1, word = [1575, 1604, 1604, 1607]\<rparr>]"

definition mp3_file :: audio_file where
  "mp3_file = \<lparr>name_f = ''fatiha.mp3'', type_f = ''audio/mpeg'', size_f = 1000\<rparr>"

definition pdf_file :: audio_file where
  "pdf_file = \<lparr>name_f = ''notes.pdf'', type_f = ''application/pdf'', size_f = 10\<rparr>"




definition reciting_ab :: app where
  "reciting_ab = queue_ab\<lparr>currentSura := [65], currentAya := bismillah,
     currentVerseWords := [[1576, 1587, 1605], [1575, 1604, 1604, 1607]],
     highlightedWords := [0]\<rparr>"

definition stale_diff :: "diff_event list" where
  "stale_diff = [\<lparr>type_d = ''deletion'', index = 0, word = [1576, 1587, 1605]\<rparr>]"

definition pending_a :: app where
  "pending_a = init_app\<lparr>mistakeQueue := [mk_mistake ''a'' 1 ''pending'' False]\<rparr>"

definition mp3_selected :: app where
  "mp3_selected = init_app\<lparr>recordedAudioFile := Some mp3_file, trainingUploads := Log []\<rparr>"

text \<open>A session that has started listening and whose socket has opened.\<close>

definition session_open :: app where
  "session_open = ws_onopen (ws_effect (fst (startListening Granted init_app)))"

text \<open>Two calls of \<open>playSpokenCorrection\<close>, the second made before the decode of the
  first has settled; then both decodes settle.\<close>

definition play_1 :: app where
  "play_1 = fst (playSpokenCorrection_call (Some [1]) init_app)"

definition play_2 :: app where
  "play_2 = fst (playSpokenCorrection_call (Some [2]) play_1)"

definition play_3 :: app where
  "play_3 = playSpokenCorrection_resume True play_2"

definition play_4 :: app where
  "play_4 = playSpokenCorrection_resume True play_3"

section \<open>Base64\<close>

text \<open>The decoder on the examples of RFC 4648, on padded input, and on input it rejects:
  a length with remainder 1 and a character outside the alphabet.\<close>

lemma window_atob_examples:
  "window_atob [90, 109, 57, 118, 89, 109, 70, 121] = Some [102, 111, 111, 98, 97, 114]"
  "window_atob [90, 109, 57, 118, 89, 103, 61, 61] = Some [102, 111, 111, 98]"
  "window_atob [90, 109, 57, 118, 89, 109, 69, 61] = Some [102, 111, 111, 98, 97]"
  "window_atob [85, 81, 61, 61] = Some [81]"
  "window_atob [81] = None"
  "window_atob [85, 81, 45, 45] = None"
  by (simp_all add: window_atob_def strip_padding_def isAsciiWhitespace_def b64_value_def Let_def)

section \<open>Word tokens\<close>

lemma tokens_dropWhile: "tokens (dropWhile isWhiteSpace S) = tokens S"
  by (induction S) auto

lemma tokens_run:
  "cur \<noteq> [] \<Longrightarrow> \<forall>x\<in>set cur. \<not> isWhiteSpace x \<Longrightarrow>
   tokens (cur @ S) =
     (cur @ takeWhile (\<lambda>x. \<not> isWhiteSpace x) S) # tokens (dropWhile (\<lambda>x. \<not> isWhiteSpace x) S)"
  by (cases cur) auto

text \<open>The pieces of \<open>split\<close> that are not empty are the tokens of the piece collected so
  far followed by the rest of the string.\<close>

lemma split_from_tokens:
  "\<forall>x\<in>set cur. \<not> isWhiteSpace x \<Longrightarrow>
   filter (\<lambda>word. length word > 0) (split_from cur S) = tokens (cur @ S)"
proof (induction cur S rule: split_from.induct)
  case (1 cur)
  show ?case
  proof (cases "cur = []")
    case True
    then show ?thesis by simp
  next
    case False
    with 1 tokens_run [of cur "[]"] show ?thesis by simp
  qed
next
  case (2 cur c cs)
  show ?case
  proof (cases "isWhiteSpace c")
    case True
    with 2 have rest:
      "filter (\<lambda>word. length word > 0) (split_from [] (dropWhile isWhiteSpace cs)) = tokens cs"
      by (simp add: tokens_dropWhile)
    show ?thesis
    proof (cases "cur = []")
      case True
      with \<open>isWhiteSpace c\<close> rest show ?thesis by simp
    next
      case False
      with \<open>isWhiteSpace c\<close> rest 2 tokens_run [of cur "c # cs"] show ?thesis by simp
    qed
  next
    case False
    with 2 show ?thesis by simp
  qed
qed

lemma split_ws_tokens: "filter (\<lambda>word. length word > 0) (split_ws S) = tokens S"
  using split_from_tokens [of "[]" S] by (simp add: split_ws_def)

lemma tokens_not_empty: "w \<in> set (tokens S) \<Longrightarrow> w \<noteq> []"
  by (induction S rule: tokens.induct) (auto split: if_splits)

lemma tokens_not_space: "w \<in> set (tokens S) \<Longrightarrow> c \<in> set w \<Longrightarrow> \<not> isWhiteSpace c"
proof (induction S rule: tokens.induct)
  case 1
  then show ?case by simp
next
  case (2 d ds)
  show ?case
  proof (cases "isWhiteSpace d")
    case True
    with 2 show ?thesis by simp
  next
    case False
    with 2 show ?thesis
      using set_takeWhileD [of c "\<lambda>x. \<not> isWhiteSpace x" ds] by auto
  qed
qed

lemma tokens_no_space:
  "w \<in> set (tokens S) \<Longrightarrow> w \<noteq> [] \<and> (\<forall>c\<in>set w. \<not> isWhiteSpace c)"
  using tokens_not_empty [of w S] tokens_not_space [of w S] by blast

lemma tokens_bismillah:
  "tokens bismillah = [[1576, 1587, 1605], [1575, 1604, 1604, 1607]]"
  by (simp add: bismillah_def isWhiteSpace_def)

section \<open>The session protocol\<close>

lemma run_messages_append:
  "run_messages atob (xs @ ys) s = run_messages atob ys (run_messages atob xs s)"
  by (induction xs arbitrary: s) auto

lemma diff_update_verse:
  "currentSura (fst (onmessage e atob (Diff_update d) s)) = currentSura s
   \<and> currentAya (fst (onmessage e atob (Diff_update d) s)) = currentAya s
   \<and> currentVerseWords (fst (onmessage e atob (Diff_update d) s)) = currentVerseWords s"
  by (simp add: onmessage_def)

lemma diff_updates_verse:
  "currentSura (run_messages atob (map (\<lambda>p. (fst p, Diff_update (snd p))) ds) s) = currentSura s
   \<and> currentAya (run_messages atob (map (\<lambda>p. (fst p, Diff_update (snd p))) ds) s) = currentAya s
   \<and> currentVerseWords (run_messages atob (map (\<lambda>p. (fst p, Diff_update (snd p))) ds) s)
       = currentVerseWords s"
  by (induction ds arbitrary: s) (simp_all add: diff_update_verse)

text \<open>
  Claim C3. After a \<open>diff_update\<close> has been handled, whatever messages \<open>ms\<close> came before
  it, the set of highlighted indices is exactly the set of the \<open>index\<close> fields of the
  entries of that message's \<open>diff\<close> array whose type is \<open>deletion\<close> or
  \<open>replacement_ref\<close>; and a sequence of \<open>diff_update\<close> messages leaves the verse context
  (sura, aya, word list) as it was.
\<close>

theorem diff_update_highlights:
  "set (highlightedWords (run_messages atob (ms @ [(e, Diff_update d)]) s))
     = index ` {x \<in> set d. type_d x = ''deletion'' \<or> type_d x = ''replacement_ref''}
   \<and> currentSura (run_messages atob (map (\<lambda>p. (fst p, Diff_update (snd p))) ds) s) = currentSura s
   \<and> currentAya (run_messages atob (map (\<lambda>p. (fst p, Diff_update (snd p))) ds) s) = currentAya s
   \<and> currentVerseWords (run_messages atob (map (\<lambda>p. (fst p, Diff_update (snd p))) ds) s)
       = currentVerseWords s"
proof -
  have "highlightedWords (run_messages atob (ms @ [(e, Diff_update d)]) s)
      = map index (filter (\<lambda>x. type_d x = ''deletion'' \<or> type_d x = ''replacement_ref'') d)"
    by (simp add: run_messages_append onmessage_def)
  then have "set (highlightedWords (run_messages atob (ms @ [(e, Diff_update d)]) s))
     = index ` {x \<in> set d. type_d x = ''deletion'' \<or> type_d x = ''replacement_ref''}"
    by simp
  with diff_updates_verse [of atob ds s] show ?thesis by simp
qed

text \<open>The scenario of the specification: while the verse is recited, with a highlight
  left by an earlier diff, the diff with a replaced second word highlights index 1 only,
  and the words of the verse stay.\<close>

theorem diff_update_highlights_witness:
  "set (highlightedWords (run_messages window_atob
         ([(env_c, Diff_update stale_diff), (env_c, Other_message)]
            @ [(env_c, Diff_update diff_example)]) reciting_ab)) = {1}
   \<and> currentVerseWords (run_messages window_atob
         (map (\<lambda>p. (fst p, Diff_update (snd p))) [(env_c, stale_diff), (env_c, diff_example)])
         reciting_ab) = [[1576, 1587, 1605], [1575, 1604, 1604, 1607]]"
proof -
  note inst = diff_update_highlights [of window_atob
      "[(env_c, Diff_update stale_diff), (env_c, Other_message)]"
      env_c diff_example reciting_ab "[(env_c, stale_diff), (env_c, diff_example)]"]
  have "index ` {x \<in> set diff_example. type_d x = ''deletion'' \<or> type_d x = ''replacement_ref''}
      = set (map index
          (filter (\<lambda>x. type_d x = ''deletion'' \<or> type_d x = ''replacement_ref'') diff_example))"
    by auto
  also have "\<dots> = {1}"
    by (simp add: diff_example_def)
  finally have one: "index ` {x \<in> set diff_example.
      type_d x = ''deletion'' \<or> type_d x = ''replacement_ref''} = {1}" .
  have words: "currentVerseWords reciting_ab = [[1576, 1587, 1605], [1575, 1604, 1604, 1607]]"
    by (simp add: reciting_ab_def)
  have a: "set (highlightedWords (run_messages window_atob
         ([(env_c, Diff_update stale_diff), (env_c, Other_message)]
            @ [(env_c, Diff_update diff_example)]) reciting_ab)) = {1}"
    using inst [THEN conjunct1] one by (rule trans)
  have b: "currentVerseWords (run_messages window_atob
         (map (\<lambda>p. (fst p, Diff_update (snd p))) [(env_c, stale_diff), (env_c, diff_example)])
         reciting_ab) = [[1576, 1587, 1605], [1575, 1604, 1604, 1607]]"
    using inst [THEN conjunct2, THEN conjunct2, THEN conjunct2] words by (rule trans)
  from a b show ?thesis by (rule conjI)
qed

text \<open>
  Claim C4. Handling a \<open>verse_identified\<close> message replaces the word list by the pieces
  of \<open>ayah_text.split(/\s+/)\<close> that are not empty, which are the word tokens of the text:
  no word is empty and no word contains white space. The highlighted indices become
  empty. The text of the example gives exactly its two words.
\<close>

theorem verse_identified_words:
  "currentVerseWords (fst (onmessage e atob (Verse_identified sura_name ayah_text ayah_number) s))
     = tokens ayah_text
   \<and> (\<forall>w \<in> set (currentVerseWords
          (fst (onmessage e atob (Verse_identified sura_name ayah_text ayah_number) s))).
        w \<noteq> [] \<and> (\<forall>c\<in>set w. \<not> isWhiteSpace c))
   \<and> highlightedWords
        (fst (onmessage e atob (Verse_identified sura_name ayah_text ayah_number) s)) = []
   \<and> currentVerseWords (fst (onmessage e atob (Verse_identified sura_name bismillah ayah_number) s))
       = [[1576, 1587, 1605], [1575, 1604, 1604, 1607]]"
proof -
  have words: "\<And>txt. currentVerseWords
      (fst (onmessage e atob (Verse_identified sura_name txt ayah_number) s)) = tokens txt"
    by (simp add: onmessage_def split_ws_tokens [simplified])
  have "highlightedWords
      (fst (onmessage e atob (Verse_identified sura_name ayah_text ayah_number) s)) = []"
    by (simp add: onmessage_def)
  with words tokens_no_space [of _ ayah_text] tokens_bismillah show ?thesis
    by simp
qed

theorem verse_identified_words_witness:
  "currentVerseWords
     (fst (onmessage env_c window_atob (Verse_identified [65] [32, 65, 9, 10, 66, 32] 1) queue_ab))
     = [[65], [66]]
   \<and> highlightedWords
       (fst (onmessage env_c window_atob (Verse_identified [65] [32, 65, 9, 10, 66, 32] 1) queue_ab))
     = []"
proof -
  note inst = verse_identified_words [of env_c window_atob "[65]" "[32, 65, 9, 10, 66, 32]" 1 queue_ab]
  have t: "tokens [32, 65, 9, 10, 66, 32] = [[65], [66]]"
    by (simp add: isWhiteSpace_def)
  have a: "currentVerseWords
      (fst (onmessage env_c window_atob (Verse_identified [65] [32, 65, 9, 10, 66, 32] 1) queue_ab))
      = [[65], [66]]"
    using inst [THEN conjunct1] t by (rule trans)
  have b: "highlightedWords
      (fst (onmessage env_c window_atob (Verse_identified [65] [32, 65, 9, 10, 66, 32] 1) queue_ab))
      = []"
    by (rule inst [THEN conjunct2, THEN conjunct2, THEN conjunct1])
  from a b show ?thesis by (rule conjI)
qed





section \<open>The mistake queue\<close>

text \<open>
  Claim C8. Verifying a mistake keeps the length and the order of the queue (the ids stay
  where they are); a record with the given id becomes the same record with its
  verification status set to the given value and its sync flag set to false, and every
  record with another id is unchanged.
\<close>

theorem verification_frame:
  "length (mistakeQueue (handleMistakeVerification i st s)) = length (mistakeQueue s)
   \<and> map id_m (mistakeQueue (handleMistakeVerification i st s)) = map id_m (mistakeQueue s)
   \<and> (\<forall>k < length (mistakeQueue s).
        (id_m (mistakeQueue s ! k) = i \<longrightarrow>
           mistakeQueue (handleMistakeVerification i st s) ! k
             = (mistakeQueue s ! k)\<lparr>verified := st, synced := False\<rparr>)
      \<and> (id_m (mistakeQueue s ! k) \<noteq> i \<longrightarrow>
           mistakeQueue (handleMistakeVerification i st s) ! k = mistakeQueue s ! k))"
  by (simp add: handleMistakeVerification_def)

theorem verification_frame_witness:
  "mistakeQueue (handleMistakeVerification ''b'' ''incorrect'' queue_ab) ! 1
     = mk_mistake ''b'' 1 ''incorrect'' False
   \<and> mistakeQueue (handleMistakeVerification ''b'' ''incorrect'' queue_ab) ! 0
     = mk_mistake ''a'' 2 ''pending'' False
   \<and> length (mistakeQueue (handleMistakeVerification ''b'' ''incorrect'' queue_ab)) = 2"
proof -
  have q: "mistakeQueue queue_ab
      = [mk_mistake ''a'' 2 ''pending'' False, mk_mistake ''b'' 1 ''pending'' True]"
    by (simp add: queue_ab_def)
  have "(0::nat) < 2" and "(1::nat) < 2" by simp_all
  with verification_frame [of "''b''" "''incorrect''" queue_ab] q
  have "mistakeQueue (handleMistakeVerification ''b'' ''incorrect'' queue_ab) ! 1
          = (mk_mistake ''b'' 1 ''pending'' True)\<lparr>verified := ''incorrect'', synced := False\<rparr>"
    and "mistakeQueue (handleMistakeVerification ''b'' ''incorrect'' queue_ab) ! 0
          = mk_mistake ''a'' 2 ''pending'' False"
    and "length (mistakeQueue (handleMistakeVerification ''b'' ''incorrect'' queue_ab)) = 2"
    by (simp_all add: mk_mistake_def)
  then show ?thesis by (simp add: mk_mistake_def)
qed

lemma ok_200: "ok 200"
  by (simp add: ok_def)

lemma not_ok_500: "\<not> ok 500"
  by (simp add: ok_def)

lemma unsynced_queue_ab:
  "unsynced_of (mistakeQueue queue_ab) = [mk_mistake ''a'' 2 ''pending'' False]"
  by (simp add: queue_ab_def unsynced_of_def mk_mistake_def)

text \<open>
  Claim C7. The sync operation selects exactly the records whose sync flag is false. If
  there are none it issues no request and the state is unchanged. Otherwise the request
  body is the list of those records without their \<open>synced\<close> field, in the same order and
  with the same ids and verification statuses. When the request fails, by a network error
  or by a status that is not a success status, the state at the time of the response is
  unchanged.
\<close>

theorem sync_selects_and_failure_keeps:
  "set (unsynced_of (mistakeQueue s)) = {m \<in> set (mistakeQueue s). \<not> synced m}
   \<and> (unsynced_of (mistakeQueue s) = [] \<longrightarrow>
        syncMistakes_request s = No_request \<and> syncMistakes res s = s)
   \<and> (unsynced_of (mistakeQueue s) \<noteq> [] \<longrightarrow>
        syncMistakes_request s = Fetch (map mistake_rest.truncate (unsynced_of (mistakeQueue s)))
        \<and> map id_m (map mistake_rest.truncate (unsynced_of (mistakeQueue s)))
            = map id_m (unsynced_of (mistakeQueue s))
        \<and> map verified (map mistake_rest.truncate (unsynced_of (mistakeQueue s)))
            = map verified (unsynced_of (mistakeQueue s)))
   \<and> syncMistakes_response unsynced Network_error s' = s'
   \<and> (\<not> ok st \<longrightarrow> syncMistakes_response unsynced (Response st body) s' = s')
   \<and> syncMistakes Network_error s = s
   \<and> (\<not> ok st \<longrightarrow> syncMistakes (Response st body) s = s)"
proof -
  have a: "set (unsynced_of (mistakeQueue s)) = {m \<in> set (mistakeQueue s). \<not> synced m}"
    by (simp add: unsynced_of_def)
  have b: "unsynced_of (mistakeQueue s) = [] \<longrightarrow>
        syncMistakes_request s = No_request \<and> syncMistakes res s = s"
    by (simp add: syncMistakes_def syncMistakes_request_def)
  have c: "unsynced_of (mistakeQueue s) \<noteq> [] \<longrightarrow>
        syncMistakes_request s = Fetch (map mistake_rest.truncate (unsynced_of (mistakeQueue s)))
        \<and> map id_m (map mistake_rest.truncate (unsynced_of (mistakeQueue s)))
            = map id_m (unsynced_of (mistakeQueue s))
        \<and> map verified (map mistake_rest.truncate (unsynced_of (mistakeQueue s)))
            = map verified (unsynced_of (mistakeQueue s))"
    by (simp add: syncMistakes_request_def mistake_rest.defs)
  have d: "syncMistakes_response unsynced Network_error s' = s'"
    by (simp add: syncMistakes_response_def)
  have e: "\<not> ok st \<longrightarrow> syncMistakes_response unsynced (Response st body) s' = s'"
    by (simp add: syncMistakes_response_def)
  have f: "syncMistakes Network_error s = s"
    by (simp add: syncMistakes_def syncMistakes_response_def split: sync_request.split)
  have g: "\<not> ok st \<longrightarrow> syncMistakes (Response st body) s = s"
    by (simp add: syncMistakes_def syncMistakes_response_def split: sync_request.split)
  from a b c d e f g show ?thesis by (intro conjI)
qed

theorem sync_selects_and_failure_keeps_witness:
  "syncMistakes_request queue_ab = Fetch [mistake_rest.truncate (mk_mistake ''a'' 2 ''pending'' False)]
   \<and> syncMistakes (Response 500 False) queue_ab = queue_ab
   \<and> syncMistakes_request init_app = No_request"
proof -
  note inst = sync_selects_and_failure_keeps [where s = queue_ab and st = 500 and body = False
      and res = Network_error and unsynced = "[]" and s' = init_app]
  note inst0 = sync_selects_and_failure_keeps [where s = init_app and st = 500 and body = False
      and res = Network_error and unsynced = "[]" and s' = init_app]
  have ne: "unsynced_of (mistakeQueue queue_ab) \<noteq> []"
    by (simp add: unsynced_queue_ab)
  have emp: "unsynced_of (mistakeQueue init_app) = []"
    by (simp add: init_app_def unsynced_of_def)
  from inst [THEN conjunct2, THEN conjunct2, THEN conjunct1, THEN mp, OF ne, THEN conjunct1]
  have a: "syncMistakes_request queue_ab
      = Fetch [mistake_rest.truncate (mk_mistake ''a'' 2 ''pending'' False)]"
    by (simp add: unsynced_queue_ab)
  have b: "syncMistakes (Response 500 False) queue_ab = queue_ab"
    by (rule inst [THEN conjunct2, THEN conjunct2, THEN conjunct2, THEN conjunct2,
          THEN conjunct2, THEN conjunct2, THEN mp, OF not_ok_500])
  have c: "syncMistakes_request init_app = No_request"
    by (rule inst0 [THEN conjunct2, THEN conjunct1, THEN mp, OF emp, THEN conjunct1])
  from a b c show ?thesis by (intro conjI)
qed

text \<open>
  Claim C1 fails on the code. The queue holds one unsynced record; the request is issued
  with its status \<open>pending\<close>; while the request is in flight the user marks the record
  incorrect, which sets its sync flag to false again so that the new status is sent; the
  success handler then marks the record synced, because its id was among those selected
  before the request. The new status has not been sent, and the next sync attempt finds
  nothing to send.
\<close>

theorem sync_marks_reverified_record:
  "syncMistakes_request pending_a
     = Fetch [mistake_rest.truncate (mk_mistake ''a'' 1 ''pending'' False)]
   \<and> mistakeQueue (handleMistakeVerification ''a'' ''incorrect'' pending_a)
     = [mk_mistake ''a'' 1 ''incorrect'' False]
   \<and> mistakeQueue (syncMistakes_response (unsynced_of (mistakeQueue pending_a)) (Response 200 True)
        (handleMistakeVerification ''a'' ''incorrect'' pending_a))
     = [mk_mistake ''a'' 1 ''incorrect'' True]
   \<and> syncMistakes_request (syncMistakes_response (unsynced_of (mistakeQueue pending_a))
        (Response 200 True) (handleMistakeVerification ''a'' ''incorrect'' pending_a))
     = No_request"
  by (simp add: pending_a_def init_app_def mk_mistake_def syncMistakes_request_def
      unsynced_of_def syncMistakes_response_def handleMistakeVerification_def ok_def)

section \<open>Training upload\<close>

lemma startsWith_prefix: "startsWith s p = prefix p s"
  by (auto simp: startsWith_def prefix_def) (metis append_eq_conv_conj)+

text \<open>
  Claim C10. When a file is chosen, it is stored as the selected file exactly when its
  media type has the prefix \<open>audio/\<close>; for a file of any other type, and when no file is
  chosen, the selection becomes null and the status line shows the error message.
\<close>

theorem file_selection:
  "(prefix ''audio/'' (type_f f) \<longrightarrow>
      recordedAudioFile (handleAudioFileUpload (f # rest) s) = Some f
      \<and> statusMessage (handleAudioFileUpload (f # rest) s) = File_selected (name_f f))
   \<and> (\<not> prefix ''audio/'' (type_f f) \<longrightarrow>
      recordedAudioFile (handleAudioFileUpload (f # rest) s) = None
      \<and> statusMessage (handleAudioFileUpload (f # rest) s) = Invalid_file)
   \<and> recordedAudioFile (handleAudioFileUpload [] s) = None
   \<and> statusMessage (handleAudioFileUpload [] s) = Invalid_file"
  by (simp add: handleAudioFileUpload_def startsWith_prefix)

theorem file_selection_witness:
  "recordedAudioFile (handleAudioFileUpload [mp3_file] init_app) = Some mp3_file
   \<and> statusMessage (handleAudioFileUpload [mp3_file] init_app) = File_selected ''fatiha.mp3''
   \<and> recordedAudioFile
       (handleAudioFileUpload [pdf_file] (handleAudioFileUpload [mp3_file] init_app)) = None
   \<and> statusMessage
       (handleAudioFileUpload [pdf_file] (handleAudioFileUpload [mp3_file] init_app)) = Invalid_file"
proof -
  have a: "prefix ''audio/'' (type_f mp3_file)"
    by (simp add: mp3_file_def)
  have b: "\<not> prefix ''audio/'' (type_f pdf_file)"
    by (simp add: pdf_file_def)
  from a file_selection [of mp3_file "[]" init_app]
    b file_selection [of pdf_file "[]" "handleAudioFileUpload [mp3_file] init_app"]
  show ?thesis by (simp add: mp3_file_def)
qed

text \<open>
  Claim C9. When the upload endpoint answers with a status that is not a success status,
  or the request fails, the status line reports the failure, the upload log is unchanged
  and the selected file stays selected. The log or the selection changes only when the
  response has a success status; with a body that parses and a log that can be read, the
  new record is put in front of the log and the selection is cleared.
\<close>

theorem upload_outcomes:
  "(recordedAudioFile s = Some f \<and> \<not> ok st \<longrightarrow>
      statusMessage (uploadInitialTrainingAudio e (Response st body) s) = Upload_failed
      \<and> trainingUploads (uploadInitialTrainingAudio e (Response st body) s) = trainingUploads s
      \<and> recordedAudioFile (uploadInitialTrainingAudio e (Response st body) s) = Some f)
   \<and> (recordedAudioFile s = Some f \<longrightarrow>
      statusMessage (uploadInitialTrainingAudio e Network_error s) = Upload_failed
      \<and> trainingUploads (uploadInitialTrainingAudio e Network_error s) = trainingUploads s
      \<and> recordedAudioFile (uploadInitialTrainingAudio e Network_error s) = Some f)
   \<and> (trainingUploads (uploadInitialTrainingAudio e res s) \<noteq> trainingUploads s
       \<or> recordedAudioFile (uploadInitialTrainingAudio e res s) \<noteq> recordedAudioFile s
      \<longrightarrow> (\<exists>st' body'. res = Response st' body' \<and> ok st'))
   \<and> (recordedAudioFile s = Some f \<and> ok st \<and> trainingUploads s = Log existing \<longrightarrow>
      trainingUploads (uploadInitialTrainingAudio e (Response st True) s)
        = Log (\<lparr>id_u = randomUUID e, fileName = name_f f,
                type_u = ''initial_recitation_upload'', timestamp_u = now e,
                fileSize = size_f f, fileType = type_f f\<rparr> # existing)
      \<and> recordedAudioFile (uploadInitialTrainingAudio e (Response st True) s) = None
      \<and> statusMessage (uploadInitialTrainingAudio e (Response st True) s) = Upload_ok (name_f f))"
proof -
  have a: "recordedAudioFile s = Some f \<and> \<not> ok st \<longrightarrow>
      statusMessage (uploadInitialTrainingAudio e (Response st body) s) = Upload_failed
      \<and> trainingUploads (uploadInitialTrainingAudio e (Response st body) s) = trainingUploads s
      \<and> recordedAudioFile (uploadInitialTrainingAudio e (Response st body) s) = Some f"
    by (simp add: uploadInitialTrainingAudio_def)
  have b: "recordedAudioFile s = Some f \<longrightarrow>
      statusMessage (uploadInitialTrainingAudio e Network_error s) = Upload_failed
      \<and> trainingUploads (uploadInitialTrainingAudio e Network_error s) = trainingUploads s
      \<and> recordedAudioFile (uploadInitialTrainingAudio e Network_error s) = Some f"
    by (simp add: uploadInitialTrainingAudio_def)
  have c: "trainingUploads (uploadInitialTrainingAudio e res s) \<noteq> trainingUploads s
       \<or> recordedAudioFile (uploadInitialTrainingAudio e res s) \<noteq> recordedAudioFile s
      \<longrightarrow> (\<exists>st' body'. res = Response st' body' \<and> ok st')"
    by (cases res; cases "recordedAudioFile s")
       (simp_all add: uploadInitialTrainingAudio_def Let_def split: if_splits stored_log.splits)
  have d: "recordedAudioFile s = Some f \<and> ok st \<and> trainingUploads s = Log existing \<longrightarrow>
      trainingUploads (uploadInitialTrainingAudio e (Response st True) s)
        = Log (\<lparr>id_u = randomUUID e, fileName = name_f f,
                type_u = ''initial_recitation_upload'', timestamp_u = now e,
                fileSize = size_f f, fileType = type_f f\<rparr> # existing)
      \<and> recordedAudioFile (uploadInitialTrainingAudio e (Response st True) s) = None
      \<and> statusMessage (uploadInitialTrainingAudio e (Response st True) s) = Upload_ok (name_f f)"
    by (simp add: uploadInitialTrainingAudio_def Let_def)
  from a b c d show ?thesis by (intro conjI)
qed

theorem upload_outcomes_witness:
  "statusMessage (uploadInitialTrainingAudio env_c (Response 500 False) mp3_selected) = Upload_failed
   \<and> trainingUploads (uploadInitialTrainingAudio env_c (Response 500 False) mp3_selected) = Log []
   \<and> recordedAudioFile (uploadInitialTrainingAudio env_c (Response 500 False) mp3_selected)
       = Some mp3_file
   \<and> recordedAudioFile (uploadInitialTrainingAudio env_c (Response 200 True) mp3_selected) = None
   \<and> statusMessage (uploadInitialTrainingAudio env_c (Response 200 True) mp3_selected)
       = Upload_ok ''fatiha.mp3''"
proof -
  note fail = upload_outcomes [where s = mp3_selected and f = mp3_file and st = 500
      and body = False and e = env_c and res = Network_error and existing = "[]"]
  note succ = upload_outcomes [where s = mp3_selected and f = mp3_file and st = 200
      and body = False and e = env_c and res = Network_error and existing = "[]"]
  have sel: "recordedAudioFile mp3_selected = Some mp3_file"
    by (simp add: mp3_selected_def)
  have log: "trainingUploads mp3_selected = Log []"
    by (simp add: mp3_selected_def)
  from sel not_ok_500 have h1: "recordedAudioFile mp3_selected = Some mp3_file \<and> \<not> ok 500"
    by (rule conjI)
  from sel ok_200 log
  have h2: "recordedAudioFile mp3_selected = Some mp3_file \<and> ok 200
      \<and> trainingUploads mp3_selected = Log []"
    by (intro conjI)
  note f = fail [THEN conjunct1, THEN mp, OF h1]
  note g = succ [THEN conjunct2, THEN conjunct2, THEN conjunct2, THEN mp, OF h2]
  have a: "statusMessage (uploadInitialTrainingAudio env_c (Response 500 False) mp3_selected)
      = Upload_failed"
    by (rule f [THEN conjunct1])
  have b: "trainingUploads (uploadInitialTrainingAudio env_c (Response 500 False) mp3_selected)
      = Log []"
    using f [THEN conjunct2, THEN conjunct1] log by (rule trans)
  have c: "recordedAudioFile (uploadInitialTrainingAudio env_c (Response 500 False) mp3_selected)
      = Some mp3_file"
    by (rule f [THEN conjunct2, THEN conjunct2])
  have d: "recordedAudioFile (uploadInitialTrainingAudio env_c (Response 200 True) mp3_selected)
      = None"
    by (rule g [THEN conjunct2, THEN conjunct1])
  have e: "statusMessage (uploadInitialTrainingAudio env_c (Response 200 True) mp3_selected)
      = Upload_ok ''fatiha.mp3''"
    using g [THEN conjunct2, THEN conjunct2] by (simp add: mp3_file_def)
  from a b c d e show ?thesis by (intro conjI)
qed

section \<open>Correction playback\<close>

text \<open>When a source is playing at the time of the call, the call stops it and clears the
  reference before the decode starts.\<close>

lemma call_stops_previous:
  "audioContext s \<Longrightarrow> spokenCorrectionSource s = Some p \<Longrightarrow>
   p \<notin> set (playing (fst (playSpokenCorrection_call (Some a) s)))
   \<and> spokenCorrectionSource (fst (playSpokenCorrection_call (Some a) s)) = None"
  by (simp add: playSpokenCorrection_call_def stop_source_def)

text \<open>
  Claim C6 fails on the code. The previous source is stopped when \<open>playSpokenCorrection\<close>
  is called, but the new source is started only after the decode has settled. When a
  second call is made before the first decode has settled, neither call finds a source to
  stop, and after both decodes two sources are playing at once.
\<close>

theorem overlapping_playback:
  "snd (playSpokenCorrection_call (Some [1]) init_app)
   \<and> snd (playSpokenCorrection_call (Some [2]) play_1)
   \<and> playing play_2 = []
   \<and> playing play_3 = [1]
   \<and> playing play_4 = [2, 1]
   \<and> spokenCorrectionSource play_4 = Some 2"
  by (simp add: play_4_def play_3_def play_2_def play_1_def init_app_def
      playSpokenCorrection_call_def playSpokenCorrection_resume_def Let_def)

section \<open>Audio capture\<close>

text \<open>With \<open>silenceTimeoutId\<close> null, as it always is, \<open>stopListening\<close> clears no timer.\<close>

lemma stopListening_intervals:
  "silenceTimeoutId s = None \<Longrightarrow> intervals (stopListening s) = intervals s"
  by (simp add: stopListening_def Let_def stop_source_def split: option.split)

text \<open>
  Claim C2 fails on the code. After \<open>startListening\<close> with the microphone granted and the
  socket open, \<open>stopListening\<close> closes the socket, ends the tracks of the microphone
  stream and cancels the pending animation frame, but the interval timer started by
  \<open>startListening\<close> is still running, also after the effect that drops the socket.
\<close>

theorem stop_leaves_interval_running:
  "snd (startListening Granted init_app) = Some 2
   \<and> isListening session_open
   \<and> ws session_open = Some OPEN
   \<and> audioStream session_open = Some [Live]
   \<and> frames session_open = [1]
   \<and> intervals session_open = [2]
   \<and> \<not> isListening (stopListening session_open)
   \<and> ws (stopListening session_open) = Some CLOSING
   \<and> audioStream (stopListening session_open) = Some [Ended]
   \<and> frames (stopListening session_open) = []
   \<and> intervals (stopListening session_open) = [2]
   \<and> ws (ws_effect (stopListening session_open)) = None
   \<and> intervals (ws_effect (stopListening session_open)) = [2]"
  by (simp add: session_open_def init_app_def startListening_def stopListening_def
      ws_effect_def ws_onopen_def close_ws_def Let_def stop_source_def)

end
